theory Spec2Isabelle
  imports Complex_Main
begin

section \<open>JavaScript values of a request body\<close>

text \<open>
  The handlers of \<^verbatim>\<open>src/index.js\<close> read their inputs from \<^verbatim>\<open>req.body\<close>, the JSON
  document parsed by \<^verbatim>\<open>express.json()\<close>. A field of the body is any JSON value, or
  \<^verbatim>\<open>undefined\<close> when the key is absent. Numbers are modelled as exact reals: IEEE
  rounding and the infinities are left out (the rounding of sums and differences is
  written out in the section on double precision), and \<^verbatim>\<open>NaN\<close> cannot occur in a parsed
  JSON document (it appears only as a result of \<^verbatim>\<open>Number(...)\<close>, see \<open>tonumber\<close>).
\<close>

datatype jsval =
    JUndefined
  | JNull
  | JBool bool
  | JNum real
  | JStr string
  | JArr "jsval list"
  | JObj "(string \<times> jsval) list"

text \<open>\<^verbatim>\<open>!v\<close> is false exactly for the truthy values.\<close>

fun truthy :: "jsval \<Rightarrow> bool" where
  "truthy JUndefined = False"
| "truthy JNull = False"
| "truthy (JBool b) = b"
| "truthy (JNum r) = (r \<noteq> 0)"
| "truthy (JStr s) = (s \<noteq> [])"
| "truthy (JArr xs) = True"
| "truthy (JObj kvs) = True"

text \<open>
  Destructuring \<^verbatim>\<open>const { k } = v\<close> throws a TypeError when \<open>v\<close> is \<^verbatim>\<open>undefined\<close> or
  \<^verbatim>\<open>null\<close>; on every other value it reads the property \<open>k\<close>. The handlers read only
  the keys category, amount, redirectUrl, payee, bypassLimitCheck, limits and limit, none
  of which is found on a prototype, so a value that is not an object yields
  \<^verbatim>\<open>undefined\<close>.
\<close>

fun destructurable :: "jsval \<Rightarrow> bool" where
  "destructurable JUndefined = False"
| "destructurable JNull = False"
| "destructurable v = True"

fun js_prop :: "jsval \<Rightarrow> string \<Rightarrow> jsval" where
  "js_prop (JObj kvs) k = (case map_of kvs k of Some v \<Rightarrow> v | None \<Rightarrow> JUndefined)"
| "js_prop v k = JUndefined"

text \<open>
  \<^verbatim>\<open>Number(v)\<close>. The conversion of a string is modelled on the empty string and on
  plain decimal digit strings; the other strings, arrays and objects are outside the
  model (\<open>NotModelled\<close>), and a handler that meets one has no modelled result.
\<close>

datatype tonumber = IsNaN | IsNum real | NotModelled

definition is_digit :: "char \<Rightarrow> bool" where
  "is_digit c = (48 \<le> (of_char c :: nat) \<and> (of_char c :: nat) \<le> 57)"

fun all_digits :: "string \<Rightarrow> bool" where
  "all_digits [] = True"
| "all_digits (c # cs) = (is_digit c \<and> all_digits cs)"

fun decimal :: "nat \<Rightarrow> string \<Rightarrow> nat" where
  "decimal acc [] = acc"
| "decimal acc (c # cs) = decimal (10 * acc + (of_char c - 48)) cs"

fun Number_js :: "jsval \<Rightarrow> tonumber" where
  "Number_js JUndefined = IsNaN"
| "Number_js JNull = IsNum 0"
| "Number_js (JBool b) = IsNum (if b then 1 else 0)"
| "Number_js (JNum r) = IsNum r"
| "Number_js (JStr s) =
     (if s = [] then IsNum 0
      else if all_digits s then IsNum (real (decimal 0 s))
      else NotModelled)"
| "Number_js (JArr xs) = NotModelled"
| "Number_js (JObj kvs) = NotModelled"

section \<open>The data model of \<^verbatim>\<open>src/db.js\<close>\<close>

text \<open>
  \<^verbatim>\<open>TransactionSchema\<close> declares four paths: userId, amount, category and date.
  It declares neither \<^verbatim>\<open>payee\<close>, nor \<^verbatim>\<open>exceededLimit\<close>, nor \<^verbatim>\<open>createdAt\<close>, and it is
  created without options, so it is strict (the Mongoose default) and has no automatic
  timestamps: a stored Transaction document holds exactly these four values.
  A date is the number of milliseconds since the epoch.
\<close>

record transaction =
  userId :: string
  amount :: real
  category :: string
  date :: int

text \<open>\<^verbatim>\<open>CategoryLimitSchema\<close>: userId, category, limit.\<close>

record category_limit =
  cl_userId :: string
  cl_category :: string
  limit :: real

text \<open>The two collections; a list is a collection in its natural (insertion) order.\<close>

record store =
  transactions :: "transaction list"
  limits :: "category_limit list"

text \<open>
  The object literal that \<^verbatim>\<open>/check-transaction\<close> hands to \<^verbatim>\<open>new TransactionModel\<close>
  (index.js, lines 235 to 242) has six properties.
\<close>

record transaction_object =
  o_userId :: string
  o_category :: string
  o_amount :: real
  o_payee :: jsval
  o_date :: int
  o_exceededLimit :: bool

text \<open>
  \<^verbatim>\<open>new TransactionModel(obj)\<close> under the strict schema of db.js: the properties that
  are paths of the schema are kept, \<^verbatim>\<open>payee\<close> and \<^verbatim>\<open>exceededLimit\<close> are discarded.
\<close>

definition TransactionModel_new :: "transaction_object \<Rightarrow> transaction" where
  "TransactionModel_new obj =
     \<lparr>userId = o_userId obj, amount = o_amount obj,
      category = o_category obj, date = o_date obj\<rparr>"

text \<open>
  \<^verbatim>\<open>doc.save()\<close>: the paths userId and category are \<^verbatim>\<open>required\<close> strings, which
  Mongoose's validator refuses when they are empty; the save then rejects (\<open>None\<close>) and
  nothing is inserted. A number satisfies \<^verbatim>\<open>required\<close> whatever its value.
\<close>

definition TransactionModel_save :: "transaction \<Rightarrow> transaction list \<Rightarrow> transaction list option" where
  "TransactionModel_save doc txns =
     (if userId doc = [] \<or> category doc = [] then None else Some (txns @ [doc]))"

text \<open>\<^verbatim>\<open>CategoryLimitModel.findOne({ userId, category })\<close>: the first matching document.\<close>

definition findOne_limit :: "string \<Rightarrow> string \<Rightarrow> category_limit list \<Rightarrow> category_limit option" where
  "findOne_limit uid c ls = find (\<lambda>l. cl_userId l = uid \<and> cl_category l = c) ls"

text \<open>
  \<^verbatim>\<open>CategoryLimitModel.findOneAndUpdate({ userId, category }, { userId, category, limit },
  { upsert: true, new: true })\<close>: the first matching document gets the three values, and
  a new document is inserted when none matches. An update runs no validators.
\<close>

fun findOneAndUpdate_upsert :: "string \<Rightarrow> string \<Rightarrow> real \<Rightarrow> category_limit list \<Rightarrow> category_limit list" where
  "findOneAndUpdate_upsert uid c n [] = [\<lparr>cl_userId = uid, cl_category = c, limit = n\<rparr>]"
| "findOneAndUpdate_upsert uid c n (l # ls) =
     (if cl_userId l = uid \<and> cl_category l = c
      then \<lparr>cl_userId = uid, cl_category = c, limit = n\<rparr> # ls
      else l # findOneAndUpdate_upsert uid c n ls)"

section \<open>The clock\<close>

text \<open>
  \<^verbatim>\<open>Date\<close> is a host object: \<^verbatim>\<open>getFullYear\<close>, \<^verbatim>\<open>getMonth\<close> and the constructor
  \<^verbatim>\<open>new Date(y, m, d)\<close> work in the server's local time zone. They are parameters of
  the model. The clock readings of one request are taken as one instant \<open>now\<close>.
\<close>

record js_date =
  getFullYear :: "int \<Rightarrow> int"
  getMonth :: "int \<Rightarrow> int"
  newDate :: "int \<Rightarrow> int \<Rightarrow> int \<Rightarrow> int"

text \<open>\<^verbatim>\<open>new Date(new Date().getFullYear(), new Date().getMonth(), 1)\<close> (index.js, line 211).\<close>

definition firstDayOfMonth :: "js_date \<Rightarrow> int \<Rightarrow> int" where
  "firstDayOfMonth h now = newDate h (getFullYear h now) (getMonth h now) 1"

text \<open>
  A concrete host for evaluating examples: the proleptic Gregorian calendar in UTC
  (the day number, counted from 1970-01-01, of a civil date, and the civil year and month
  of a day number; civil months run from 1 to 12, those of \<^verbatim>\<open>Date\<close> from 0 to 11).
\<close>

definition shifted_year :: "int \<Rightarrow> int \<Rightarrow> int" where
  "shifted_year y m = (if m \<le> 2 then y - 1 else y)"

definition day_of_year :: "int \<Rightarrow> int \<Rightarrow> int" where
  "day_of_year m d = (153 * ((m + 9) mod 12) + 2) div 5 + d - 1"

definition days_from_civil :: "int \<Rightarrow> int \<Rightarrow> int \<Rightarrow> int" where
  "days_from_civil y m d =
     (shifted_year y m div 400) * 146097
     + (shifted_year y m mod 400) * 365
     + (shifted_year y m mod 400) div 4
     - (shifted_year y m mod 400) div 100
     + day_of_year m d - 719468"

definition day_of_era :: "int \<Rightarrow> int" where
  "day_of_era z = (z + 719468) mod 146097"

definition year_of_era :: "int \<Rightarrow> int" where
  "year_of_era z =
     (day_of_era z - day_of_era z div 1460 + day_of_era z div 36524
      - day_of_era z div 146096) div 365"

definition shifted_month :: "int \<Rightarrow> int" where
  "shifted_month z =
     (5 * (day_of_era z
           - (365 * year_of_era z + year_of_era z div 4 - year_of_era z div 100)) + 2) div 153"

definition civil_month :: "int \<Rightarrow> int" where
  "civil_month z = (if shifted_month z < 10 then shifted_month z + 3 else shifted_month z - 9)"

definition civil_year :: "int \<Rightarrow> int" where
  "civil_year z =
     year_of_era z + ((z + 719468) div 146097) * 400 + (if civil_month z \<le> 2 then 1 else 0)"

definition utc :: js_date where
  "utc = \<lparr>getFullYear = (\<lambda>t. civil_year (t div 86400000)),
          getMonth = (\<lambda>t. civil_month (t div 86400000) - 1),
          newDate = (\<lambda>y m d. days_from_civil y (m + 1) d * 86400000)\<rparr>"

section \<open>POST /check-transaction\<close>

text \<open>The \<^verbatim>\<open>details\<close> object of the 411 response (index.js, lines 218 to 223).\<close>

record limit_details =
  d_limit :: real
  d_spent :: real
  remaining :: real
  exceedAmount :: real

text \<open>
  The responses of the handlers:
  \<^item> \<open>BadRequest m\<close>: status 400 with message \<open>m\<close>;
  \<^item> \<open>LimitExceeded left details\<close>: status 411, \<open>left\<close> being the number printed in
    the message \<^verbatim>\<open>Limit exceeded! You have ... left.\<close>;
  \<^item> \<open>Redirect m url\<close>: status 200 of /check-transaction, with message and redirect;
  \<^item> \<open>CategoryResult v\<close>: status 200 of /get-category, with the category or null;
  \<^item> \<open>Message m\<close>: status 200 of /set-category-limit;
  \<^item> \<open>ServerError\<close>: status 500, sent by the \<^verbatim>\<open>catch\<close> block.
\<close>

datatype response =
    BadRequest string
  | LimitExceeded real limit_details
  | Redirect string jsval
  | CategoryResult jsval
  | Message string
  | ServerError

text \<open>
  A handler run either has a modelled result, or it left the model: the request carried
  a value whose treatment depends on conversions that are not modelled (a category that
  is not a string, an amount that is not a number, an exotic operand of \<^verbatim>\<open>Number\<close>).
\<close>

datatype 'a run = Modelled 'a | Unmodelled

text \<open>
  \<^verbatim>\<open>TransactionModel.find({ userId, category, date: { $gte: firstDayOfMonth } })\<close>
  followed by \<^verbatim>\<open>reduce((sum, txn) => sum + txn.amount, 0)\<close> (lines 211 to 213).
\<close>

definition find_transactions :: "string \<Rightarrow> string \<Rightarrow> int \<Rightarrow> transaction list \<Rightarrow> transaction list" where
  "find_transactions uid c first txns =
     filter (\<lambda>t. userId t = uid \<and> category t = c \<and> first \<le> date t) txns"

definition totalSpent :: "js_date \<Rightarrow> string \<Rightarrow> string \<Rightarrow> int \<Rightarrow> transaction list \<Rightarrow> real" where
  "totalSpent h uid c now txns =
     foldl (\<lambda>sum txn. sum + amount txn) 0 (find_transactions uid c (firstDayOfMonth h now) txns)"

text \<open>
  \<^verbatim>\<open>categoryLimit && totalSpent + amount > categoryLimit.limit\<close> (line 216). The sum is
  exact here; \<open>exceeds64\<close>, in the section on double precision, rounds it as the
  doubles do, and the two agree wherever the sum is a double itself.
\<close>

definition exceeds :: "category_limit option \<Rightarrow> real \<Rightarrow> real \<Rightarrow> bool" where
  "exceeds categoryLimit spent a =
     (case categoryLimit of None \<Rightarrow> False | Some cl \<Rightarrow> spent + a > limit cl)"

definition limitDetails :: "category_limit \<Rightarrow> real \<Rightarrow> real \<Rightarrow> limit_details" where
  "limitDetails cl spent a =
     \<lparr>d_limit = limit cl, d_spent = spent,
      remaining = limit cl - spent,
      exceedAmount = a - (limit cl - spent)\<rparr>"

text \<open>The condition of line 203, negated.\<close>

definition required_fields :: "jsval \<Rightarrow> bool" where
  "required_fields body =
     (truthy (js_prop body ''category'') \<and> truthy (js_prop body ''amount'') \<and>
      truthy (js_prop body ''redirectUrl'') \<and> truthy (js_prop body ''payee''))"

text \<open>Lines 235 to 249: save the transaction and answer 200; a rejected save answers 500.\<close>

definition save_transaction ::
  "string \<Rightarrow> int \<Rightarrow> jsval \<Rightarrow> string \<Rightarrow> real \<Rightarrow> bool \<Rightarrow> store \<Rightarrow> response \<times> store" where
  "save_transaction uid now body c a exceedsLimit st =
     (case TransactionModel_save
             (TransactionModel_new
                \<lparr>o_userId = uid, o_category = c, o_amount = a,
                 o_payee = js_prop body ''payee'', o_date = now,
                 o_exceededLimit = exceedsLimit\<rparr>)
             (transactions st) of
        None \<Rightarrow> (ServerError, st)
      | Some txns \<Rightarrow>
          (Redirect
             (if exceedsLimit \<and> truthy (js_prop body ''bypassLimitCheck'')
              then ''Transaction saved despite exceeding limit''
              else ''Transaction successful'')
             (js_prop body ''redirectUrl''),
           st\<lparr>transactions := txns\<rparr>))"

text \<open>Lines 207 to 232 for a textual category \<open>c\<close> and a numeric amount \<open>a\<close>.\<close>

definition decide ::
  "js_date \<Rightarrow> string \<Rightarrow> int \<Rightarrow> jsval \<Rightarrow> string \<Rightarrow> real \<Rightarrow> store \<Rightarrow> response \<times> store" where
  "decide h uid now body c a st =
     (let spent = totalSpent h uid c now (transactions st);
          categoryLimit = findOne_limit uid c (limits st);
          exceedsLimit = exceeds categoryLimit spent a
      in case categoryLimit of
           Some cl \<Rightarrow>
             if exceedsLimit \<and> \<not> truthy (js_prop body ''bypassLimitCheck'')
             then (LimitExceeded (limit cl - spent) (limitDetails cl spent a), st)
             else save_transaction uid now body c a exceedsLimit st
         | None \<Rightarrow> save_transaction uid now body c a exceedsLimit st)"

text \<open>
  The handler. \<open>uid\<close> is \<^verbatim>\<open>req.userId\<close>, set by \<^verbatim>\<open>authenticate\<close>. The destructuring of
  line 200 is inside the \<^verbatim>\<open>try\<close> block, so a body that cannot be destructured answers 500.
\<close>

definition check_transaction ::
  "js_date \<Rightarrow> string \<Rightarrow> int \<Rightarrow> jsval \<Rightarrow> store \<Rightarrow> (response \<times> store) run" where
  "check_transaction h uid now body st =
     (if \<not> destructurable body then Modelled (ServerError, st)
      else if \<not> required_fields body then Modelled (BadRequest ''Missing required fields'', st)
      else case (js_prop body ''category'', js_prop body ''amount'') of
             (JStr c, JNum a) \<Rightarrow> Modelled (decide h uid now body c a st)
           | _ \<Rightarrow> Unmodelled)"

section \<open>POST /get-category\<close>

text \<open>
  \<^verbatim>\<open>TransactionModel.findOne({ payee, userId }).sort({ createdAt: -1 }).select("category")\<close>
  and, for the fallback, the same query without \<^verbatim>\<open>userId\<close> (index.js, lines 101 to 111).

  The filter names the path \<^verbatim>\<open>payee\<close>, which the schema of db.js does not declare.
  What Mongoose does with such a condition depends on its \<^verbatim>\<open>strictQuery\<close> setting, whose
  default differs between Mongoose versions, so it is a parameter: when it is on, the
  condition is removed from the filter; when it is off, the condition is sent to the
  database, where it selects the documents whose \<^verbatim>\<open>payee\<close> equals the given text. No
  stored document has a \<^verbatim>\<open>payee\<close> (see \<open>TransactionModel_new\<close>), so none is selected.
\<close>

definition stored_payee :: "transaction \<Rightarrow> string option" where
  "stored_payee t = None"

definition payee_condition :: "bool \<Rightarrow> string \<Rightarrow> transaction \<Rightarrow> bool" where
  "payee_condition strictQuery p t = (strictQuery \<or> stored_payee t = Some p)"

text \<open>
  The sort key \<^verbatim>\<open>createdAt\<close> is not a path of the schema either, and no document has
  it: all keys are equal, and the order among equal keys is the one the database
  produces. The model takes the natural order, so \<open>findOne\<close> yields the first match.
\<close>

definition findOne_payee :: "bool \<Rightarrow> string option \<Rightarrow> string \<Rightarrow> transaction list \<Rightarrow> transaction option" where
  "findOne_payee strictQuery owner p txns =
     find (\<lambda>t. payee_condition strictQuery p t \<and>
                (case owner of None \<Rightarrow> True | Some uid \<Rightarrow> userId t = uid)) txns"

definition get_category :: "bool \<Rightarrow> string \<Rightarrow> jsval \<Rightarrow> store \<Rightarrow> response run" where
  "get_category strictQuery uid body st =
     (if \<not> destructurable body then Modelled ServerError
      else if \<not> truthy (js_prop body ''payee'') then Modelled (BadRequest ''Payee is required'')
      else case js_prop body ''payee'' of
             JStr p \<Rightarrow>
               (case findOne_payee strictQuery (Some uid) p (transactions st) of
                  Some userTransaction \<Rightarrow>
                    Modelled (CategoryResult (JStr (category userTransaction)))
                | None \<Rightarrow>
                    (case findOne_payee strictQuery None p (transactions st) of
                       Some globalTransaction \<Rightarrow>
                         Modelled (CategoryResult (JStr (category globalTransaction)))
                     | None \<Rightarrow> Modelled (CategoryResult JNull)))
           | _ \<Rightarrow> Unmodelled)"

section \<open>POST /set-category-limit\<close>

text \<open>
  One turn of the loop of lines 131 to 141, up to the decision: the destructuring of the
  entry, then \<^verbatim>\<open>typeof category !== "string" || isNaN(Number(limit)) || Number(limit) < 0\<close>,
  evaluated from left to right.
\<close>

datatype entry_check = EntryThrows | EntryInvalid | EntryValid string real | EntryUnmodelled

definition check_entry :: "jsval \<Rightarrow> entry_check" where
  "check_entry e =
     (if \<not> destructurable e then EntryThrows
      else case js_prop e ''category'' of
             JStr c \<Rightarrow>
               (case Number_js (js_prop e ''limit'') of
                  IsNaN \<Rightarrow> EntryInvalid
                | NotModelled \<Rightarrow> EntryUnmodelled
                | IsNum n \<Rightarrow> if n < 0 then EntryInvalid else EntryValid c n)
           | _ \<Rightarrow> EntryInvalid)"

text \<open>
  The loop: each entry is checked and, when valid, upserted at once, before the next
  entry is looked at. An invalid entry returns 400 and a throwing one 500, and both leave
  the collection as the earlier turns made it.
\<close>

fun limits_loop :: "string \<Rightarrow> jsval list \<Rightarrow> store \<Rightarrow> (response \<times> store) run" where
  "limits_loop uid [] st = Modelled (Message ''Category limits updated successfully.'', st)"
| "limits_loop uid (e # es) st =
     (case check_entry e of
        EntryThrows \<Rightarrow> Modelled (ServerError, st)
      | EntryInvalid \<Rightarrow> Modelled (BadRequest ''Invalid category or limit value.'', st)
      | EntryUnmodelled \<Rightarrow> Unmodelled
      | EntryValid c n \<Rightarrow>
          limits_loop uid es (st\<lparr>limits := findOneAndUpdate_upsert uid c n (limits st)\<rparr>))"

definition invalid_format :: string where
  "invalid_format = ''Invalid request format. 'limits' must be a non-empty array.''"

definition set_category_limit :: "string \<Rightarrow> jsval \<Rightarrow> store \<Rightarrow> (response \<times> store) run" where
  "set_category_limit uid body st =
     (if \<not> destructurable body then Modelled (ServerError, st)
      else case js_prop body ''limits'' of
             JArr es \<Rightarrow>
               if es = [] then Modelled (BadRequest invalid_format, st)
               else limits_loop uid es st
           | _ \<Rightarrow> Modelled (BadRequest invalid_format, st))"

section \<open>The admission decision in double precision\<close>

text \<open>
  The numbers of JavaScript are IEEE 754 doubles, and \<^verbatim>\<open>+\<close> and \<^verbatim>\<open>-\<close> round their exact
  result to the nearest double, ties to the even significand. Where a sum of decimal
  fractions meets the cap exactly, the rounding decides the comparison of line 216, so the
  decision is given a second time with the rounding written out. \<open>binary64 x\<close> is the
  double nearest to \<open>x\<close>: 53 significant bits, the least binary exponent \<open>-1022\<close>
  (below it the spacing of the subnormal numbers); overflow to infinity is left out.
  The numbers of a parsed body and of the stored documents are doubles.
\<close>

definition half_even :: "real \<Rightarrow> int" where
  "half_even x =
     (if x - of_int \<lfloor>x\<rfloor> < 1 / 2 then \<lfloor>x\<rfloor>
      else if 1 / 2 < x - of_int \<lfloor>x\<rfloor> then \<lfloor>x\<rfloor> + 1
      else if even \<lfloor>x\<rfloor> then \<lfloor>x\<rfloor> else \<lfloor>x\<rfloor> + 1)"

text \<open>
  The binary exponent of a positive number, found by halving or doubling it into
  \<open>[1, 2)\<close>; the fuel of 1100 steps covers the whole range of the doubles.
\<close>

fun exponent :: "nat \<Rightarrow> real \<Rightarrow> int" where
  "exponent 0 x = 0"
| "exponent (Suc n) x =
     (if 2 \<le> x then exponent n (x / 2) + 1
      else if x < 1 then exponent n (2 * x) - 1
      else 0)"

definition ulp :: "real \<Rightarrow> real" where
  "ulp x = 2 powi (max (exponent 1100 \<bar>x\<bar>) (- 1022) - 52)"

definition binary64 :: "real \<Rightarrow> real" where
  "binary64 x = (if x = 0 then 0 else sgn x * of_int (half_even (\<bar>x\<bar> / ulp x)) * ulp x)"

definition plus64 :: "real \<Rightarrow> real \<Rightarrow> real" where
  "plus64 x y = binary64 (x + y)"

definition minus64 :: "real \<Rightarrow> real \<Rightarrow> real" where
  "minus64 x y = binary64 (x - y)"

text \<open>Lines 212 to 232 again, with the arithmetic of doubles.\<close>

definition totalSpent64 :: "js_date \<Rightarrow> string \<Rightarrow> string \<Rightarrow> int \<Rightarrow> transaction list \<Rightarrow> real" where
  "totalSpent64 h uid c now txns =
     foldl (\<lambda>sum txn. plus64 sum (amount txn)) 0
       (find_transactions uid c (firstDayOfMonth h now) txns)"

definition exceeds64 :: "category_limit option \<Rightarrow> real \<Rightarrow> real \<Rightarrow> bool" where
  "exceeds64 categoryLimit spent a =
     (case categoryLimit of None \<Rightarrow> False | Some cl \<Rightarrow> plus64 spent a > limit cl)"

definition limitDetails64 :: "category_limit \<Rightarrow> real \<Rightarrow> real \<Rightarrow> limit_details" where
  "limitDetails64 cl spent a =
     \<lparr>d_limit = limit cl, d_spent = spent,
      remaining = minus64 (limit cl) spent,
      exceedAmount = minus64 a (minus64 (limit cl) spent)\<rparr>"

definition decide64 ::
  "js_date \<Rightarrow> string \<Rightarrow> int \<Rightarrow> jsval \<Rightarrow> string \<Rightarrow> real \<Rightarrow> store \<Rightarrow> response \<times> store" where
  "decide64 h uid now body c a st =
     (let spent = totalSpent64 h uid c now (transactions st);
          categoryLimit = findOne_limit uid c (limits st);
          exceedsLimit = exceeds64 categoryLimit spent a
      in case categoryLimit of
           Some cl \<Rightarrow>
             if exceedsLimit \<and> \<not> truthy (js_prop body ''bypassLimitCheck'')
             then (LimitExceeded (minus64 (limit cl) spent) (limitDetails64 cl spent a), st)
             else save_transaction uid now body c a exceedsLimit st
         | None \<Rightarrow> save_transaction uid now body c a exceedsLimit st)"

definition check_transaction64 ::
  "js_date \<Rightarrow> string \<Rightarrow> int \<Rightarrow> jsval \<Rightarrow> store \<Rightarrow> (response \<times> store) run" where
  "check_transaction64 h uid now body st =
     (if \<not> destructurable body then Modelled (ServerError, st)
      else if \<not> required_fields body then Modelled (BadRequest ''Missing required fields'', st)
      else case (js_prop body ''category'', js_prop body ''amount'') of
             (JStr c, JNum a) \<Rightarrow> Modelled (decide64 h uid now body c a st)
           | _ \<Rightarrow> Unmodelled)"

section \<open>Statement vocabulary and example data\<close>

text \<open>
  An admission call in the sense of the specification: a request that gets past the
  validation of line 203, with a textual category \<open>c\<close> and a numeric amount \<open>a\<close>.
  Truthiness makes \<open>c\<close> non-empty and \<open>a\<close> non-zero.
\<close>

definition admission_call :: "jsval \<Rightarrow> string \<Rightarrow> real \<Rightarrow> bool" where
  "admission_call body c a =
     (destructurable body \<and> required_fields body \<and>
      js_prop body ''category'' = JStr c \<and> js_prop body ''amount'' = JNum a)"

text \<open>
  The Spend Aggregator in the words of the specification: the sum of the amounts of the
  Transactions of one owner and category dated within \<open>[windowStart, windowEnd]\<close>, and
  its month-to-date instance (first instant of the current month up to now).
\<close>

definition spendSoFar :: "string \<Rightarrow> string \<Rightarrow> int \<Rightarrow> int \<Rightarrow> transaction list \<Rightarrow> real" where
  "spendSoFar uid c windowStart windowEnd txns =
     sum_list (map amount
       (filter (\<lambda>t. userId t = uid \<and> category t = c \<and>
                     windowStart \<le> date t \<and> date t \<le> windowEnd) txns))"

definition month_to_date :: "js_date \<Rightarrow> string \<Rightarrow> string \<Rightarrow> int \<Rightarrow> transaction list \<Rightarrow> real" where
  "month_to_date h uid c now txns = spendSoFar uid c (firstDayOfMonth h now) now txns"

text \<open>Example data: requests, and instants of June 2024 (UTC).\<close>

definition purchase :: "string \<Rightarrow> real \<Rightarrow> string \<Rightarrow> jsval \<Rightarrow> jsval" where
  "purchase c a p bypass =
     JObj [(''category'', JStr c), (''amount'', JNum a), (''redirectUrl'', JStr ''/pay''),
           (''payee'', JStr p), (''bypassLimitCheck'', bypass)]"

definition june_4 :: int where "june_4 = 1717500000000"

definition june_15 :: int where "june_15 = 1718452800000"

definition june_20 :: int where "june_20 = 1718841600000"

definition may_31 :: int where "may_31 = 1717196400000"

definition food_limit :: "real \<Rightarrow> category_limit" where
  "food_limit cap = \<lparr>cl_userId = ''u1'', cl_category = ''Food'', limit = cap\<rparr>"

definition food :: "real \<Rightarrow> int \<Rightarrow> transaction" where
  "food a t = \<lparr>userId = ''u1'', amount = a, category = ''Food'', date = t\<rparr>"

definition empty_store :: store where
  "empty_store = \<lparr>transactions = [], limits = []\<rparr>"

section \<open>Auxiliary facts\<close>

lemmas utc_simps = firstDayOfMonth_def utc_def civil_year_def civil_month_def shifted_month_def
  year_of_era_def day_of_era_def days_from_civil_def shifted_year_def day_of_year_def

lemma firstDay_june_15: "firstDayOfMonth utc june_15 = 1717200000000"
  by (simp add: utc_simps june_15_def)

lemma check_transaction_admission:
  "admission_call body c a \<Longrightarrow>
   check_transaction h uid now body st = Modelled (decide h uid now body c a st)"
  by (simp add: check_transaction_def admission_call_def)

lemma admission_call_nonempty: "admission_call body c a \<Longrightarrow> c \<noteq> []"
  by (auto simp: admission_call_def required_fields_def)

lemma admission_call_purchase:
  "c \<noteq> [] \<Longrightarrow> a \<noteq> 0 \<Longrightarrow> p \<noteq> [] \<Longrightarrow> admission_call (purchase c a p b) c a"
  by (simp add: admission_call_def purchase_def required_fields_def)

lemma purchase_props:
  "js_prop (purchase c a p b) ''bypassLimitCheck'' = b"
  "js_prop (purchase c a p b) ''redirectUrl'' = JStr ''/pay''"
  "js_prop (purchase c a p b) ''payee'' = JStr p"
  "js_prop (purchase c a p b) ''category'' = JStr c"
  "js_prop (purchase c a p b) ''amount'' = JNum a"
  by (simp_all add: purchase_def)


lemma decide_bypass:
  "findOne_limit uid c (limits st) = Some cl \<Longrightarrow>
   totalSpent h uid c now (transactions st) + a > limit cl \<Longrightarrow>
   truthy (js_prop body ''bypassLimitCheck'') \<Longrightarrow>
   decide h uid now body c a st = save_transaction uid now body c a True st"
  by (simp add: decide_def exceeds_def Let_def)


lemma save_transaction_stores:
  "uid \<noteq> [] \<Longrightarrow> c \<noteq> [] \<Longrightarrow>
   save_transaction uid now body c a e st =
     (Redirect (if e \<and> truthy (js_prop body ''bypassLimitCheck'')
                then ''Transaction saved despite exceeding limit''
                else ''Transaction successful'')
               (js_prop body ''redirectUrl''),
      st\<lparr>transactions := transactions st @
           [TransactionModel_new
              \<lparr>o_userId = uid, o_category = c, o_amount = a,
               o_payee = js_prop body ''payee'', o_date = now, o_exceededLimit = e\<rparr>]\<rparr>)"
  by (simp add: save_transaction_def TransactionModel_save_def TransactionModel_new_def)

lemma totalSpent_sum:
  "totalSpent h uid c now txns =
   sum_list (map amount (find_transactions uid c (firstDayOfMonth h now) txns))"
proof -
  have "foldl (\<lambda>sum txn. sum + amount txn) acc xs = acc + sum_list (map amount xs)"
    for acc :: real and xs :: "transaction list"
    by (induction xs arbitrary: acc) simp_all
  then show ?thesis by (simp add: totalSpent_def)
qed


lemma findOne_food: "findOne_limit ''u1'' ''Food'' [food_limit cap] = Some (food_limit cap)"
  by (simp add: findOne_limit_def food_limit_def)

lemma save_transaction_cases:
  "save_transaction uid now body c a e st = (r, st') \<Longrightarrow>
   st' = st \<or>
   st' = st\<lparr>transactions := transactions st @
              [\<lparr>userId = uid, amount = a, category = c, date = now\<rparr>]\<rparr>"
  by (auto simp: save_transaction_def TransactionModel_save_def TransactionModel_new_def
      split: if_splits)

lemma decide_cases:
  "decide h uid now body c a st = (r, st') \<Longrightarrow>
   st' = st \<or>
   st' = st\<lparr>transactions := transactions st @
              [\<lparr>userId = uid, amount = a, category = c, date = now\<rparr>]\<rparr>"
  by (auto simp: decide_def Let_def split: option.splits if_splits dest: save_transaction_cases)

lemma save_transaction_not_400: "save_transaction uid now body c a e st \<noteq> (BadRequest m, st'')"
  by (simp add: save_transaction_def split: option.splits)

lemma decide_not_400: "decide h uid now body c a st \<noteq> (BadRequest m, st'')"
  by (simp add: decide_def Let_def save_transaction_not_400 split: option.splits)

lemma firstDay_numeral:
  "firstDayOfMonth utc 1718452800000 = 1717200000000"
  "firstDayOfMonth utc 1717500000000 = 1717200000000"
  by (simp_all add: utc_simps)

lemmas run_simps = check_transaction_def required_fields_def decide_def Let_def exceeds_def
  limitDetails_def save_transaction_def TransactionModel_new_def TransactionModel_save_def
  totalSpent_def find_transactions_def findOne_limit_def firstDay_numeral

lemmas data_simps = purchase_def food_def food_limit_def empty_store_def
  june_4_def june_15_def june_20_def may_31_def

lemmas limit_simps = set_category_limit_def check_entry_def is_digit_def

lemma limits_loop_prefix:
  "map check_entry pre = map (\<lambda>(c, n). EntryValid c n) cns \<Longrightarrow>
   check_entry bad = EntryInvalid \<Longrightarrow>
   limits_loop uid (pre @ bad # post) st =
     Modelled (BadRequest ''Invalid category or limit value.'',
               st\<lparr>limits := foldl (\<lambda>ls (c, n). findOneAndUpdate_upsert uid c n ls)
                                 (limits st) cns\<rparr>)"
proof (induction pre arbitrary: cns st)
  case Nil
  then show ?case by simp
next
  case (Cons e pre)
  then obtain c n cns' where cns: "cns = (c, n) # cns'"
    and e: "check_entry e = EntryValid c n"
    and rest: "map check_entry pre = map (\<lambda>(c, n). EntryValid c n) cns'"
    by (cases cns) auto
  from Cons.IH [OF rest Cons.prems(2)] e cns show ?case
    by simp
qed

lemma exponent_numeral:
  "exponent (numeral k) x =
     (if 2 \<le> x then exponent (pred_numeral k) (x / 2) + 1
      else if x < 1 then exponent (pred_numeral k) (2 * x) - 1
      else 0)"
  by (simp add: numeral_eq_Suc)

lemmas binary64_simps = binary64_def ulp_def half_even_def exponent_numeral plus64_def minus64_def

lemma binary64_tenths:
  "binary64 (1 / 10) = 3602879701896397 / 36028797018963968"
  "binary64 (1 / 5) = 3602879701896397 / 18014398509481984"
  "binary64 (3 / 10) = 5404319552844595 / 18014398509481984"
  by (simp_all add: binary64_simps)

lemma binary64_boundary:
  "plus64 0 (3602879701896397 / 36028797018963968) = 3602879701896397 / 36028797018963968"
  "plus64 (3602879701896397 / 36028797018963968) (3602879701896397 / 18014398509481984) =
     1351079888211149 / 4503599627370496"
  "minus64 (5404319552844595 / 18014398509481984) (3602879701896397 / 36028797018963968) =
     7205759403792793 / 36028797018963968"
  "minus64 (3602879701896397 / 18014398509481984) (7205759403792793 / 36028797018963968) =
     1 / 36028797018963968"
  by (simp_all add: binary64_simps)

lemma binary64_hundreds:
  "plus64 0 200 = 200"
  "plus64 200 300 = 500"
  by (simp_all add: binary64_simps)

lemma check_transaction64_admission:
  "admission_call body c a \<Longrightarrow>
   check_transaction64 h uid now body st = Modelled (decide64 h uid now body c a st)"
  by (simp add: check_transaction64_def admission_call_def)

lemma decide64_within:
  "findOne_limit uid c (limits st) = Some cl \<Longrightarrow>
   plus64 (totalSpent64 h uid c now (transactions st)) a \<le> limit cl \<Longrightarrow>
   decide64 h uid now body c a st = save_transaction uid now body c a False st"
  by (simp add: decide64_def exceeds64_def Let_def)

lemma decide64_reject:
  "findOne_limit uid c (limits st) = Some cl \<Longrightarrow>
   plus64 (totalSpent64 h uid c now (transactions st)) a > limit cl \<Longrightarrow>
   \<not> truthy (js_prop body ''bypassLimitCheck'') \<Longrightarrow>
   decide64 h uid now body c a st =
     (LimitExceeded (minus64 (limit cl) (totalSpent64 h uid c now (transactions st)))
        (limitDetails64 cl (totalSpent64 h uid c now (transactions st)) a), st)"
  by (simp add: decide64_def exceeds64_def Let_def)

lemmas run64_simps = check_transaction64_def required_fields_def decide64_def Let_def exceeds64_def
  limitDetails64_def save_transaction_def TransactionModel_new_def TransactionModel_save_def
  totalSpent64_def find_transactions_def findOne_limit_def firstDay_numeral

text \<open>
  Where every sum and difference the decision forms is a double already, the two
  renderings of the handler agree.
\<close>

lemma check_transaction64_exact:
  assumes "totalSpent64 h uid c now (transactions st) = totalSpent h uid c now (transactions st)"
    and "js_prop body ''category'' = JStr c"
    and "js_prop body ''amount'' = JNum a"
    and "binary64 (totalSpent h uid c now (transactions st) + a) =
         totalSpent h uid c now (transactions st) + a"
    and "\<And>cl :: category_limit.
           binary64 (limit cl - totalSpent h uid c now (transactions st)) =
         limit cl - totalSpent h uid c now (transactions st)"
    and "\<And>cl :: category_limit.
           binary64 (a - (limit cl - totalSpent h uid c now (transactions st))) =
         a - (limit cl - totalSpent h uid c now (transactions st))"
  shows "check_transaction64 h uid now body st = check_transaction h uid now body st"
proof -
  have "decide64 h uid now body c a st = decide h uid now body c a st"
  proof (cases "findOne_limit uid c (limits st)")
    case None
    then show ?thesis
      by (simp add: decide64_def decide_def exceeds64_def exceeds_def Let_def)
  next
    case (Some cl)
    with assms(1,4) assms(5) [of cl] assms(6) [of cl] show ?thesis
      by (simp add: decide64_def decide_def exceeds64_def exceeds_def limitDetails64_def
          limitDetails_def plus64_def minus64_def Let_def)
  qed
  with assms(2,3) show ?thesis
    by (simp add: check_transaction64_def check_transaction_def)
qed

section \<open>The admission decision\<close>



text \<open>
  Claim C3, as stated, fails on its boundary. The owner has spent 0.1, the cap is 0.3 and
  the request asks for 0.2, each number being the double that \<^verbatim>\<open>JSON.parse\<close> makes of
  the decimal. In exact arithmetic the sum meets the cap; the sum of doubles that line 216
  forms is \<open>0.30000000000000004\<close>, greater than the double of 0.3, so the call is
  answered 411 and nothing is stored. (The first call shows how the 0.1 got stored.)
\<close>

theorem decimal_boundary_counterexample:
  "(1 / 10 + 1 / 5 \<le> (3 / 10 :: real)) \<and>
   check_transaction64 utc ''u1'' june_4 (purchase ''Food'' (binary64 (1 / 10)) ''Cafe'' JUndefined)
     \<lparr>transactions = [], limits = [food_limit (binary64 (3 / 10))]\<rparr> =
   Modelled (Redirect ''Transaction successful'' (JStr ''/pay''),
             \<lparr>transactions = [food (binary64 (1 / 10)) june_4],
              limits = [food_limit (binary64 (3 / 10))]\<rparr>) \<and>
   check_transaction64 utc ''u1'' june_15 (purchase ''Food'' (binary64 (1 / 5)) ''Cafe'' JUndefined)
     \<lparr>transactions = [food (binary64 (1 / 10)) june_4],
      limits = [food_limit (binary64 (3 / 10))]\<rparr> =
   Modelled (LimitExceeded (7205759403792793 / 36028797018963968)
               \<lparr>d_limit = 5404319552844595 / 18014398509481984,
                d_spent = 3602879701896397 / 36028797018963968,
                remaining = 7205759403792793 / 36028797018963968,
                exceedAmount = 1 / 36028797018963968\<rparr>,
             \<lparr>transactions = [food (binary64 (1 / 10)) june_4],
              limits = [food_limit (binary64 (3 / 10))]\<rparr>)"
  by (simp add: binary64_tenths run64_simps data_simps binary64_boundary)

text \<open>
  Claim C3, amended. An admission call for which a cap is configured, and for which the
  sum \<open>priorSpend + amount\<close> that the handler forms in double precision is not greater
  than the cap (a computed sum equal to the cap included), is admitted with the message
  \<^verbatim>\<open>Transaction successful\<close>, and exactly one Transaction is appended to the collection.
  The owner identity is not empty: the schema requires it, and neither \<^verbatim>\<open>/signup\<close> nor
  \<^verbatim>\<open>/signin\<close> issues a token for an empty \<^verbatim>\<open>userId\<close>.
\<close>

theorem admit_within_computed_limit:
  assumes "admission_call body c a"
    and "uid \<noteq> []"
    and "findOne_limit uid c (limits st) = Some cl"
    and "plus64 (totalSpent64 h uid c now (transactions st)) a \<le> limit cl"
  shows "check_transaction64 h uid now body st =
         Modelled (Redirect ''Transaction successful'' (js_prop body ''redirectUrl''),
                   st\<lparr>transactions := transactions st @
                        [\<lparr>userId = uid, amount = a, category = c, date = now\<rparr>]\<rparr>)"
  using assms
  by (simp add: check_transaction64_admission decide64_within save_transaction_stores
      admission_call_nonempty TransactionModel_new_def)

theorem admit_within_computed_limit_witness:
  "admission_call (purchase ''Food'' 300 ''Cafe'' JUndefined) ''Food'' 300 \<and>
   findOne_limit ''u1'' ''Food'' [food_limit 500] = Some (food_limit 500) \<and>
   plus64 (totalSpent64 utc ''u1'' ''Food'' june_15 [food 200 june_4]) 300 = 500 \<and>
   check_transaction64 utc ''u1'' june_15 (purchase ''Food'' 300 ''Cafe'' JUndefined)
     \<lparr>transactions = [food 200 june_4], limits = [food_limit 500]\<rparr> =
   Modelled (Redirect ''Transaction successful'' (JStr ''/pay''),
             \<lparr>transactions = [food 200 june_4, food 300 june_15], limits = [food_limit 500]\<rparr>)"
proof -
  let ?body = "purchase ''Food'' 300 ''Cafe'' JUndefined"
  let ?st = "\<lparr>transactions = [food 200 june_4], limits = [food_limit 500]\<rparr>"
  have h1: "admission_call ?body ''Food'' 300"
    by (simp add: admission_call_purchase)
  have h2: "''u1'' \<noteq> []" by simp
  have h3: "findOne_limit ''u1'' ''Food'' (limits ?st) = Some (food_limit 500)"
    by (simp add: findOne_food)
  have spent: "totalSpent64 utc ''u1'' ''Food'' june_15 [food 200 june_4] = 200"
    by (simp add: totalSpent64_def find_transactions_def firstDay_june_15 food_def june_4_def
        binary64_hundreds)
  have sum: "plus64 (totalSpent64 utc ''u1'' ''Food'' june_15 [food 200 june_4]) 300 = 500"
    by (simp add: spent binary64_hundreds)
  have h4: "plus64 (totalSpent64 utc ''u1'' ''Food'' june_15 (transactions ?st)) 300
            \<le> limit (food_limit 500)"
    by (simp add: sum food_limit_def)
  from admit_within_computed_limit [OF h1 h2 h3 h4] h1 h3 sum show ?thesis
    by (simp add: purchase_props food_def)
qed

text \<open>
  The override path in general: a cap is configured, \<open>priorSpend + amount > cap\<close> and the
  bypass flag is set. The call is admitted with the override message, one record is
  appended, and the \<^verbatim>\<open>exceedAmount\<close> of the details is \<open>amount - (cap - priorSpend)\<close>.
\<close>

lemma admit_override:
  assumes "admission_call body c a"
    and "uid \<noteq> []"
    and "findOne_limit uid c (limits st) = Some cl"
    and "totalSpent h uid c now (transactions st) + a > limit cl"
    and "truthy (js_prop body ''bypassLimitCheck'')"
  shows "check_transaction h uid now body st =
         Modelled (Redirect ''Transaction saved despite exceeding limit''
                     (js_prop body ''redirectUrl''),
                   st\<lparr>transactions := transactions st @
                        [\<lparr>userId = uid, amount = a, category = c, date = now\<rparr>]\<rparr>)"
    and "exceedAmount (limitDetails cl (totalSpent h uid c now (transactions st)) a) =
         a - (limit cl - totalSpent h uid c now (transactions st))"
  using assms
  by (simp_all add: check_transaction_admission decide_bypass save_transaction_stores
      admission_call_nonempty TransactionModel_new_def limitDetails_def)

text \<open>
  Claim C2 (not met by the code). With a cap configured, \<open>priorSpend + amount > cap\<close>
  and the bypass flag set, the call is admitted with the override message, one record is
  stored, and the \<^verbatim>\<open>exceedAmount\<close> computed for the details is
  \<open>amount - (cap - priorSpend)\<close>; but the stored record has no exceeded-limit flag. The
  handler passes \<^verbatim>\<open>exceededLimit: true\<close> to the constructor, and the schema of db.js,
  which does not declare that path, discards it. In the scenario of the specification
  (cap 500, 200 spent, 350 requested with bypass) the stored record is the record that
  the same request stores when no cap is configured at all.
\<close>

theorem override_record_unflagged:
  "check_transaction utc ''u1'' june_15 (purchase ''Food'' 350 ''Cafe'' (JBool True))
     \<lparr>transactions = [food 200 june_4], limits = [food_limit 500]\<rparr> =
   Modelled (Redirect ''Transaction saved despite exceeding limit'' (JStr ''/pay''),
             \<lparr>transactions = [food 200 june_4, food 350 june_15], limits = [food_limit 500]\<rparr>)
   \<and> check_transaction utc ''u1'' june_15 (purchase ''Food'' 350 ''Cafe'' (JBool True))
     \<lparr>transactions = [food 200 june_4], limits = []\<rparr> =
   Modelled (Redirect ''Transaction successful'' (JStr ''/pay''),
             \<lparr>transactions = [food 200 june_4, food 350 june_15], limits = []\<rparr>)
   \<and> TransactionModel_new
       \<lparr>o_userId = ''u1'', o_category = ''Food'', o_amount = 350, o_payee = JStr ''Cafe'',
        o_date = june_15, o_exceededLimit = True\<rparr> =
     \<lparr>userId = ''u1'', amount = 350, category = ''Food'', date = june_15\<rparr>"
  by (simp add: run_simps data_simps)





text \<open>
  Claim C9. Whenever a run of the handler changes the store, the change is one record
  appended to the Transaction collection: its owner is the authenticated identity, its
  date is the instant \<open>now\<close> read from the server's clock, and only its category and
  amount come from the request body. Nothing else in the body (a \<^verbatim>\<open>date\<close> or an
  \<^verbatim>\<open>exceededLimit\<close> key, say) reaches the stored record; the payee is handed to the
  constructor and not kept by the schema.
\<close>

theorem stored_record_from_server:
  assumes "check_transaction h uid now body st = Modelled (r, st')"
    and "st' \<noteq> st"
  shows "\<exists>c a. js_prop body ''category'' = JStr c \<and> js_prop body ''amount'' = JNum a \<and>
           st' = st\<lparr>transactions := transactions st @
                     [\<lparr>userId = uid, amount = a, category = c, date = now\<rparr>]\<rparr>"
  using assms
  by (auto simp: check_transaction_def split: if_splits jsval.splits dest: decide_cases)

theorem stored_record_from_server_witness:
  "check_transaction utc ''u1'' june_15
     (JObj [(''category'', JStr ''Food''), (''amount'', JNum 300), (''redirectUrl'', JStr ''/pay''),
            (''payee'', JStr ''Cafe''), (''date'', JNum 0), (''exceededLimit'', JBool True)])
     \<lparr>transactions = [food 200 june_4], limits = [food_limit 500]\<rparr> =
   Modelled (Redirect ''Transaction successful'' (JStr ''/pay''),
             \<lparr>transactions = [food 200 june_4, food 300 june_15], limits = [food_limit 500]\<rparr>)
   \<and> \<lparr>transactions = [food 200 june_4, food 300 june_15], limits = [food_limit 500]\<rparr> \<noteq>
       \<lparr>transactions = [food 200 june_4], limits = [food_limit 500]\<rparr>
   \<and> (\<exists>c a. JStr ''Food'' = JStr c \<and> JNum 300 = JNum a \<and>
        \<lparr>transactions = [food 200 june_4, food 300 june_15], limits = [food_limit 500]\<rparr> =
        \<lparr>transactions = [food 200 june_4] @
            [\<lparr>userId = ''u1'', amount = a, category = c, date = june_15\<rparr>],
         limits = [food_limit 500]\<rparr>)"
proof -
  let ?body = "JObj [(''category'', JStr ''Food''), (''amount'', JNum 300),
            (''redirectUrl'', JStr ''/pay''),
            (''payee'', JStr ''Cafe''), (''date'', JNum 0), (''exceededLimit'', JBool True)]"
  let ?st = "\<lparr>transactions = [food 200 june_4], limits = [food_limit 500]\<rparr>"
  let ?st' = "\<lparr>transactions = [food 200 june_4, food 300 june_15], limits = [food_limit 500]\<rparr>"
  have run: "check_transaction utc ''u1'' june_15 ?body ?st =
             Modelled (Redirect ''Transaction successful'' (JStr ''/pay''), ?st')"
    by (simp add: run_simps data_simps)
  have changed: "?st' \<noteq> ?st" by simp
  from stored_record_from_server [OF run changed] run changed show ?thesis
    by simp
qed

section \<open>Validation\<close>

text \<open>
  Claim C6, as stated, fails: a negative amount is truthy, so the request below passes
  line 203, is admitted, and a Transaction with amount \<open>-5\<close> is created.
\<close>

theorem negative_amount_counterexample:
  "check_transaction utc ''u1'' june_15 (purchase ''Food'' (- 5) ''Cafe'' JUndefined) empty_store =
   Modelled (Redirect ''Transaction successful'' (JStr ''/pay''),
             \<lparr>transactions = [food (- 5) june_15], limits = []\<rparr>)"
  by (simp add: run_simps data_simps)

text \<open>
  Claim C6, amended. A request whose body can be destructured is answered with the
  validation error, the store being left as it was, exactly when category, amount,
  redirectUrl or payee is falsy (absent, null, false, zero or the empty string). Every
  other request passes the validation; the amount need not be positive, nor a number.
\<close>

theorem validation_is_truthiness:
  assumes "destructurable body"
  shows "(check_transaction h uid now body st =
            Modelled (BadRequest ''Missing required fields'', st)) =
         (\<not> (truthy (js_prop body ''category'') \<and> truthy (js_prop body ''amount'') \<and>
              truthy (js_prop body ''redirectUrl'') \<and> truthy (js_prop body ''payee'')))"
  using assms
  by (auto simp: check_transaction_def required_fields_def decide_not_400 split: jsval.splits)

theorem validation_is_truthiness_witness:
  "destructurable (purchase ''Food'' 0 ''Cafe'' JUndefined) \<and>
   check_transaction utc ''u1'' june_15 (purchase ''Food'' 0 ''Cafe'' JUndefined) empty_store =
     Modelled (BadRequest ''Missing required fields'', empty_store) \<and>
   destructurable (purchase ''Food'' 12 ''Cafe'' JUndefined) \<and>
   check_transaction utc ''u1'' june_15 (purchase ''Food'' 12 ''Cafe'' JUndefined) empty_store \<noteq>
     Modelled (BadRequest ''Missing required fields'', empty_store)"
proof -
  have d0: "destructurable (purchase ''Food'' 0 ''Cafe'' JUndefined)"
    and d1: "destructurable (purchase ''Food'' 12 ''Cafe'' JUndefined)"
    by (simp_all add: purchase_def)
  from validation_is_truthiness [OF d0, of utc "''u1''" june_15 empty_store]
    validation_is_truthiness [OF d1, of utc "''u1''" june_15 empty_store] d0 d1
  show ?thesis
    by (simp add: purchase_props)
qed

section \<open>The window of the prior spend\<close>

text \<open>
  Claim C4, as stated, fails: the query of line 212 has a lower bound only, so a stored
  Transaction dated after the moment of the call is counted (240), while the
  month-to-date window contains 200.
\<close>

theorem future_dated_counterexample:
  "totalSpent utc ''u1'' ''Food'' june_15 [food 200 june_4, food 40 june_20] = 240 \<and>
   month_to_date utc ''u1'' ''Food'' june_15 [food 200 june_4, food 40 june_20] = 200"
  by (simp add: run_simps month_to_date_def spendSoFar_def data_simps)

text \<open>
  Claim C4, amended. The prior spend used by the decision is the sum of the amounts of
  the stored Transactions of the same owner and category dated at or after the first
  instant of the current month. There is no upper bound; the sum is the month-to-date
  one whenever no Transaction of that owner and category is dated after \<open>now\<close>.
\<close>

theorem prior_spend_window:
  "totalSpent h uid c now txns =
     sum_list (map amount
       (filter (\<lambda>t. userId t = uid \<and> category t = c \<and> firstDayOfMonth h now \<le> date t) txns))
   \<and> ((\<forall>t\<in>set txns. userId t = uid \<and> category t = c \<longrightarrow> date t \<le> now) \<longrightarrow>
        totalSpent h uid c now txns = month_to_date h uid c now txns)"
proof -
  have "(\<forall>t\<in>set txns. userId t = uid \<and> category t = c \<longrightarrow> date t \<le> now) \<Longrightarrow>
        filter (\<lambda>t. userId t = uid \<and> category t = c \<and> firstDayOfMonth h now \<le> date t) txns =
        filter (\<lambda>t. userId t = uid \<and> category t = c \<and> firstDayOfMonth h now \<le> date t \<and>
                     date t \<le> now) txns"
    by (rule filter_cong) auto
  then show ?thesis
    by (simp add: totalSpent_sum find_transactions_def month_to_date_def spendSoFar_def)
qed


theorem prior_spend_window_witness:
  "date (food 70 may_31) \<le> june_15 \<and> date (food 200 june_4) \<le> june_15 \<and>
   totalSpent utc ''u1'' ''Food'' june_15 [food 70 may_31, food 200 june_4] = 200 \<and>
   month_to_date utc ''u1'' ''Food'' june_15 [food 70 may_31, food 200 june_4] = 200"
proof -
  have h: "\<forall>t\<in>set [food 70 may_31, food 200 june_4].
       userId t = ''u1'' \<and> category t = ''Food'' \<longrightarrow> date t \<le> june_15"
    by (simp add: food_def may_31_def june_4_def june_15_def)
  have v: "totalSpent utc ''u1'' ''Food'' june_15 [food 70 may_31, food 200 june_4] = 200"
    by (simp add: run_simps data_simps)
  have d: "date (food 70 may_31) \<le> june_15 \<and> date (food 200 june_4) \<le> june_15"
    by (simp add: food_def may_31_def june_4_def june_15_def)
  from prior_spend_window [of utc "''u1''" "''Food''" june_15 "[food 70 may_31, food 200 june_4]"]
    h v d show ?thesis
    by simp
qed


section \<open>Category inference\<close>

text \<open>
  Claim C5 (not met by the code). The lookup is meant to return the category of the most
  recent Transaction with the given payee, of the owner first and of any owner otherwise.
  The schema of db.js stores neither a payee nor a \<^verbatim>\<open>createdAt\<close>, so the lookup cannot
  find a Transaction by its payee. Here u1 pays Uber (Travel), then u2 pays Amazon
  (Shopping), and u1 asks for the category of Amazon: the specification's answer is
  Shopping; the handler answers null when the payee condition is kept in the filter,
  and Travel when Mongoose removes it.
\<close>

theorem payee_lookup_misses:
  "check_transaction utc ''u1'' june_4 (purchase ''Travel'' 10 ''Uber'' JUndefined) empty_store =
   Modelled (Redirect ''Transaction successful'' (JStr ''/pay''),
             \<lparr>transactions = [\<lparr>userId = ''u1'', amount = 10, category = ''Travel'', date = june_4\<rparr>],
              limits = []\<rparr>)
   \<and> check_transaction utc ''u2'' june_15 (purchase ''Shopping'' 20 ''Amazon'' JUndefined)
       \<lparr>transactions = [\<lparr>userId = ''u1'', amount = 10, category = ''Travel'', date = june_4\<rparr>],
        limits = []\<rparr> =
   Modelled (Redirect ''Transaction successful'' (JStr ''/pay''),
             \<lparr>transactions = [\<lparr>userId = ''u1'', amount = 10, category = ''Travel'', date = june_4\<rparr>,
                              \<lparr>userId = ''u2'', amount = 20, category = ''Shopping'', date = june_15\<rparr>],
              limits = []\<rparr>)
   \<and> get_category False ''u1'' (JObj [(''payee'', JStr ''Amazon'')])
       \<lparr>transactions = [\<lparr>userId = ''u1'', amount = 10, category = ''Travel'', date = june_4\<rparr>,
                        \<lparr>userId = ''u2'', amount = 20, category = ''Shopping'', date = june_15\<rparr>],
        limits = []\<rparr> =
     Modelled (CategoryResult JNull)
   \<and> get_category True ''u1'' (JObj [(''payee'', JStr ''Amazon'')])
       \<lparr>transactions = [\<lparr>userId = ''u1'', amount = 10, category = ''Travel'', date = june_4\<rparr>,
                        \<lparr>userId = ''u2'', amount = 20, category = ''Shopping'', date = june_15\<rparr>],
        limits = []\<rparr> =
     Modelled (CategoryResult (JStr ''Travel''))"
  by (simp add: run_simps data_simps get_category_def findOne_payee_def payee_condition_def
      stored_payee_def)

section \<open>Limit configuration\<close>

text \<open>
  Claim C7, as stated, fails: the loop applies an entry before it looks at the next one,
  so the valid first entry below is stored although the second entry makes the call fail
  with the validation error.
\<close>

theorem partial_batch_counterexample:
  "set_category_limit ''u1''
     (JObj [(''limits'',
             JArr [JObj [(''category'', JStr ''Food''), (''limit'', JNum 100)],
                   JObj [(''category'', JNum 5), (''limit'', JNum 1)]])])
     empty_store =
   Modelled (BadRequest ''Invalid category or limit value.'',
             \<lparr>transactions = [], limits = [food_limit 100]\<rparr>)"
  by (simp add: limit_simps data_simps)

text \<open>
  Claim C7, amended. When a batch consists of valid entries followed by an invalid one
  (a category that is not a string, or a cap that is NaN or negative), the call is
  rejected with the validation error after the entries before the invalid one have been
  upserted, in order; the invalid entry and the entries after it are not applied. The
  stored limits are left as they were when the invalid entry comes first.
\<close>

theorem batch_applied_up_to_first_invalid:
  assumes "destructurable body"
    and "js_prop body ''limits'' = JArr (pre @ bad # post)"
    and "map check_entry pre = map (\<lambda>(c, n). EntryValid c n) cns"
    and "check_entry bad = EntryInvalid"
  shows "set_category_limit uid body st =
         Modelled (BadRequest ''Invalid category or limit value.'',
                   st\<lparr>limits := foldl (\<lambda>ls (c, n). findOneAndUpdate_upsert uid c n ls)
                                     (limits st) cns\<rparr>)"
  using assms by (simp add: set_category_limit_def limits_loop_prefix)

theorem batch_applied_up_to_first_invalid_witness:
  "set_category_limit ''u1''
     (JObj [(''limits'',
             JArr [JObj [(''category'', JStr ''Food''), (''limit'', JNum 100)],
                   JObj [(''category'', JStr ''Rent''), (''limit'', JNum (- 1))],
                   JObj [(''category'', JStr ''Fuel''), (''limit'', JNum 30)]])])
     \<lparr>transactions = [], limits = [food_limit 500]\<rparr> =
   Modelled (BadRequest ''Invalid category or limit value.'',
             \<lparr>transactions = [], limits = [food_limit 100]\<rparr>)"
proof -
  let ?e1 = "JObj [(''category'', JStr ''Food''), (''limit'', JNum 100)]"
  let ?e2 = "JObj [(''category'', JStr ''Rent''), (''limit'', JNum (- 1))]"
  let ?e3 = "JObj [(''category'', JStr ''Fuel''), (''limit'', JNum 30)]"
  let ?body = "JObj [(''limits'', JArr [?e1, ?e2, ?e3])]"
  have h1: "destructurable ?body" by simp
  have h2: "js_prop ?body ''limits'' = JArr ([?e1] @ ?e2 # [?e3])" by simp
  have h3: "map check_entry [?e1] = map (\<lambda>(c, n). EntryValid c n) [(''Food'', 100)]"
    by (simp add: check_entry_def)
  have h4: "check_entry ?e2 = EntryInvalid"
    by (simp add: check_entry_def)
  from batch_applied_up_to_first_invalid [OF h1 h2 h3 h4, of "''u1''"
      "\<lparr>transactions = [], limits = [food_limit 500]\<rparr>"]
  show ?thesis
    by (simp add: food_limit_def)
qed

text \<open>
  Claim C10. There is a batch that the operation accepts although the category of its
  entry is the empty string, and whose cap, given as the numeric string \<^verbatim>\<open>"250"\<close>, is
  coerced by \<^verbatim>\<open>Number\<close>: the CategoryLimit record with the empty category and the limit
  250 is stored.
\<close>

theorem empty_category_accepted:
  "set_category_limit ''u1''
     (JObj [(''limits'', JArr [JObj [(''category'', JStr []), (''limit'', JStr ''250'')]])])
     empty_store =
   Modelled (Message ''Category limits updated successfully.'',
             \<lparr>transactions = [],
              limits = [\<lparr>cl_userId = ''u1'', cl_category = [], limit = 250\<rparr>]\<rparr>)"
  by (simp add: limit_simps data_simps)


end
